theory Spec2Isabelle
  imports Main "HOL-Library.Word"
begin

unbundle bit_operations_syntax

section \<open>Package opt: the optional boolean\<close>

text \<open>
  The Go type \<^verbatim>\<open>type Bool string\<close> is a string, and a Go string is a sequence of
  bytes, as is a \<^verbatim>\<open>[]byte\<close>: both are modelled by \<^typ>\<open>string\<close>, a list of
  8-bit characters. A method with a pointer receiver (\<^verbatim>\<open>func (b *Bool) ...\<close>) takes the
  value held at \<^verbatim>\<open>*b\<close> before the call and returns the value held after it.
\<close>

type_synonym Bool = string

type_synonym bytes = string

text \<open>
  A value of the empty interface \<^verbatim>\<open>any\<close>: the nil interface, or a value together with
  its dynamic type. The types the type switch of \<^verbatim>\<open>Scan\<close> names have a constructor of
  their own, and so have some of the types it does not name; \<open>AnyOther t v\<close> is a value
  of any further dynamic type, given by the name of its type and a rendering of the value.
\<close>

datatype any =
    is_AnyNil: AnyNil
  | is_AnyBool: AnyBool bool
  | is_AnyInt64: AnyInt64 "64 word"
  | AnyInt "64 word"
  | AnyInt32 "32 word"
  | AnyUint64 "64 word"
  | AnyFloat64 "64 word"
  | AnyString string
  | AnyBytes bytes
  | AnyOther string string

text \<open>
  A Go \<^verbatim>\<open>error\<close> value. \<open>Errorf f args\<close> is the error built by
  \<^verbatim>\<open>fmt.Errorf(f, args...)\<close>: it records the format string and the operands, the
  rendering of the message being the work of package fmt. \<open>ErrUnexpectedType\<close> is
  \<^verbatim>\<open>registry.ErrUnexpectedType\<close>, and \<open>SysError n\<close> an error number reported by the
  operating system. A function's \<^verbatim>\<open>error\<close> result is an \<open>error option\<close>, with
  \<open>None\<close> for \<^verbatim>\<open>nil\<close>.
\<close>

datatype error =
    Errorf string "any list"
  | ErrUnexpectedType
  | SysError nat

text \<open>\<^verbatim>\<open>strconv.FormatBool\<close> of the Go library: "true" or "false" according to the value.\<close>

definition FormatBool :: "bool \<Rightarrow> string" where
  "FormatBool v = (if v then ''true'' else ''false'')"

definition Set :: "Bool \<Rightarrow> bool \<Rightarrow> Bool" where
  "Set b v = FormatBool v"

definition Clear :: "Bool \<Rightarrow> Bool" where
  "Clear b = ''''"

definition Get :: "Bool \<Rightarrow> bool \<times> bool" where
  "Get b =
     (if b = ''true'' then (True, True)
      else if b = ''false'' then (False, True)
      else (False, False))"

fun Scan :: "Bool \<Rightarrow> any \<Rightarrow> Bool \<times> error option" where
  "Scan b AnyNil = ('''', None)"
| "Scan b (AnyBool src) = (if src then (''true'', None) else (''false'', None))"
| "Scan b (AnyInt64 src) = (if src = 0 then (''false'', None) else (''true'', None))"
| "Scan b src = (b, Some (Errorf ''opt.Bool.Scan: invalid type %T: %v'' [src, src]))"

definition EqualBool :: "Bool \<Rightarrow> bool \<Rightarrow> bool" where
  "EqualBool b v = (case Get b of (p, ok) \<Rightarrow> ok \<and> p = v)"

definition trueBytes :: bytes where
  "trueBytes = ''true''"

definition falseBytes :: bytes where
  "falseBytes = ''false''"

definition nullBytes :: bytes where
  "nullBytes = ''null''"

text \<open>
  \<^verbatim>\<open>MarshalJSON\<close> returns \<^verbatim>\<open>([]byte, error)\<close>, and one of the two is nil on every
  path: the result is the error (\<open>Inl\<close>) or the bytes (\<open>Inr\<close>).
\<close>

definition MarshalJSON :: "Bool \<Rightarrow> error + bytes" where
  "MarshalJSON b =
     (if b = ''true'' then Inr trueBytes
      else if b = ''false'' then Inr falseBytes
      else if b = '''' \<or> b = ''unset'' then Inr nullBytes
      else Inl (Errorf ''invalid opt.Bool value %q'' [AnyString b]))"

definition UnmarshalJSON :: "Bool \<Rightarrow> bytes \<Rightarrow> Bool \<times> error option" where
  "UnmarshalJSON b j =
     (if j = ''true'' then (''true'', None)
      else if j = ''false'' then (''false'', None)
      else if j = ''null'' then (''unset'', None)
      else (b, Some (Errorf ''invalid opt.Bool value %q'' [AnyBytes j])))"


section \<open>Package hostinfo: the Windows probes\<close>

type_synonym uint32 = "32 word"

type_synonym uint64 = "64 word"

text \<open>
  What the probes read from outside the program, one field for each library or system
  call of the source, named after it:
  \<^item> \<open>RtlGetNtVersionNumbers\<close>: the major, minor and build numbers the kernel reports;
  \<^item> \<open>OpenKey k path access\<close>: \<^verbatim>\<open>registry.OpenKey\<close>, an error or the handle of the
    opened key;
  \<^item> \<open>GetIntegerValue key name\<close>: \<^verbatim>\<open>key.GetIntegerValue\<close>, the value, its registry type
    and the error;
  \<^item> \<open>Stat path\<close>: the error result of \<^verbatim>\<open>os.Stat\<close>, the only result the source uses;
  \<^item> \<open>Executable\<close>: the path and the error of \<^verbatim>\<open>os.Executable\<close>;
  \<^item> \<open>Dir\<close> and \<open>Join\<close>: \<^verbatim>\<open>filepath.Dir\<close> and \<^verbatim>\<open>filepath.Join\<close> (on two elements) of
    the Go library, whose path arithmetic is left open;
  \<^item> \<open>GetRegInteger name default\<close>: see below.
  The deferred \<^verbatim>\<open>key.Close()\<close> of \<^verbatim>\<open>getUBR\<close> changes no result and is not modelled.

  \<^verbatim>\<open>winutil.GetRegInteger\<close> is a function of this repository that is not among the
  sources. The spec calls it the read of "a configuration-store flag indicating an
  installer-driven deployment"; it is a parameter here, taken as it is called: a
  function of the flag's name and a default value that returns an unsigned 64-bit integer.
\<close>

record sys =
  RtlGetNtVersionNumbers :: "uint32 \<times> uint32 \<times> uint32"
  OpenKey :: "uint32 \<Rightarrow> string \<Rightarrow> uint32 \<Rightarrow> error + nat"
  GetIntegerValue :: "nat \<Rightarrow> string \<Rightarrow> uint64 \<times> uint32 \<times> error option"
  Stat :: "string \<Rightarrow> error option"
  GetRegInteger :: "string \<Rightarrow> uint64 \<Rightarrow> uint64"
  Executable :: "string \<times> error option"
  Dir :: "string \<Rightarrow> string"
  Join :: "string \<Rightarrow> string \<Rightarrow> string"

text \<open>
  The verb \<^verbatim>\<open>%d\<close> of package fmt on an unsigned integer: its decimal digits, most
  significant first, with no sign, padding or leading zero.
\<close>

definition digit :: "nat \<Rightarrow> char" where
  "digit d = ''0123456789'' ! d"

function fmt_d :: "nat \<Rightarrow> string" where
  "fmt_d n = (if n < 10 then [digit n] else fmt_d (n div 10) @ [digit (n mod 10)])"
  by pat_completeness auto
termination
  by (relation "measure (\<lambda>n. n)") auto

declare fmt_d.simps [simp del]

text \<open>
  Modelled from the spec: \<^verbatim>\<open>syncs.AtomicValue[string]\<close>, the type of \<^verbatim>\<open>winVerCache\<close>, is
  not among the sources. The spec describes "process-wide state holding the most
  recently computed OS version string", "empty until first query", read by
  "read-if-present, else compute-and-store": a single slot that is empty (\<open>None\<close>) or
  holds a string. \<open>LoadOk\<close> returns the string held and whether there is one, \<open>Store\<close>
  fills the slot.
\<close>

type_synonym AtomicValue = "string option"

definition LoadOk :: "AtomicValue \<Rightarrow> string \<times> bool" where
  "LoadOk c = (case c of None \<Rightarrow> ('''', False) | Some s \<Rightarrow> (s, True))"

definition Store :: "AtomicValue \<Rightarrow> string \<Rightarrow> AtomicValue" where
  "Store c s = Some s"

text \<open>Constants of package registry, with the values of the Windows API.\<close>

definition LOCAL_MACHINE :: uint32 where
  "LOCAL_MACHINE = 0x80000002"

definition QUERY_VALUE :: uint32 where
  "QUERY_VALUE = 1"

definition WOW64_64KEY :: uint32 where
  "WOW64_64KEY = 0x100"

definition DWORD :: uint32 where
  "DWORD = 4"

definition backslash :: string where
  "backslash = [CHR 0x5C]"

definition CurrentVersion :: string where
  "CurrentVersion =
     ''SOFTWARE'' @ backslash @ ''Microsoft'' @ backslash @ ''Windows NT'' @ backslash
       @ ''CurrentVersion''"

definition getUBR :: "sys \<Rightarrow> uint32 \<times> error option" where
  "getUBR sy =
     (case OpenKey sy LOCAL_MACHINE CurrentVersion (QUERY_VALUE OR WOW64_64KEY) of
        Inl err \<Rightarrow> (0, Some err)
      | Inr key \<Rightarrow>
          (case GetIntegerValue sy key ''UBR'' of
             (val, valType, Some err) \<Rightarrow> (0, Some err)
           | (val, valType, None) \<Rightarrow>
               if valType \<noteq> DWORD then (0, Some ErrUnexpectedType)
               else (ucast val, None)))"

text \<open>
  \<open>osVersionWindows sy winVerCache\<close> returns the string and the cache after the call.
  \<^verbatim>\<open>fmt.Sprintf("%d.%d.%d", major, minor, build)\<close> is the three numbers in decimal with a
  dot between them, and \<^verbatim>\<open>fmt.Sprintf(".%d", ubr)\<close> a dot and the number.
\<close>

definition osVersionWindows :: "sys \<Rightarrow> AtomicValue \<Rightarrow> string \<times> AtomicValue" where
  "osVersionWindows sy winVerCache =
     (case LoadOk winVerCache of
        (s, True) \<Rightarrow> (s, winVerCache)
      | (_, False) \<Rightarrow>
          (case RtlGetNtVersionNumbers sy of
             (major, minor, build) \<Rightarrow>
               let s = fmt_d (unat major) @ ''.'' @ fmt_d (unat minor) @ ''.''
                         @ fmt_d (unat build);
                   s = (if major = 10
                        then (case getUBR sy of
                                (ubr, None) \<Rightarrow> s @ ''.'' @ fmt_d (unat ubr)
                              | (ubr, Some err) \<Rightarrow> s)
                        else s)
               in (s, if s \<noteq> '''' then Store winVerCache s else winVerCache)))"

definition chocolatey :: string where
  "chocolatey =
     ''C:'' @ backslash @ ''ProgramData'' @ backslash @ ''chocolatey'' @ backslash
       @ ''lib'' @ backslash @ ''tailscale''"

definition packageTypeWindows :: "sys \<Rightarrow> string" where
  "packageTypeWindows sy =
     (if Stat sy chocolatey = None then ''choco''
      else if GetRegInteger sy ''MSI'' 0 = 1 then ''msi''
      else (case Executable sy of
              (exe, Some err) \<Rightarrow> ''''
            | (exe, None) \<Rightarrow>
                let dir = Dir sy exe;
                    nsisUninstaller = Join sy dir ''Uninstall-Tailscale.exe''
                in if Stat sy nsisUninstaller = None then ''nsis'' else ''''))"


text \<open>
  A concrete system state on which the probes are evaluated below: Windows 10, build
  19041, whose registry holds the update build revision 388 as a \<^verbatim>\<open>DWORD\<close>; no file
  exists, the installer flag is not set, and the running binary is \<^verbatim>\<open>tailscaled.exe\<close> at the
  root of drive D, a path of which \<^verbatim>\<open>filepath.Dir\<close> is the first three characters;
  \<^verbatim>\<open>filepath.Join\<close> of that directory with a file name appends the name.
\<close>

definition host :: sys where
  "host =
     \<lparr>RtlGetNtVersionNumbers = (10, 0, 19041),
      OpenKey = (\<lambda>k path access. Inr 7),
      GetIntegerValue = (\<lambda>key name. (388, DWORD, None)),
      Stat = (\<lambda>path. Some (SysError 2)),
      GetRegInteger = (\<lambda>name d. d),
      Executable = (''D:'' @ backslash @ ''tailscaled.exe'', None),
      Dir = (\<lambda>path. take 3 path),
      Join = (\<lambda>dir name. dir @ name)\<rparr>"


section \<open>The optional boolean: accessors\<close>

text \<open>
  C2. \<open>Get\<close> is total and decides on the backing string alone: it returns
  \<open>(True, True)\<close> exactly for "true", \<open>(False, True)\<close> exactly for "false", and
  \<open>(False, False)\<close> for every other string, among them the empty string and "unset".
  Hence \<open>Get\<close> after \<open>Set True\<close> is \<open>(True, True)\<close>, after \<open>Set False\<close> it is
  \<open>(False, True)\<close>, and after \<open>Clear\<close> it is \<open>(False, False)\<close>, whatever the value was
  before.
\<close>

theorem Get_total:
  "(Get b = (True, True)) = (b = ''true'')
   \<and> (Get b = (False, True)) = (b = ''false'')
   \<and> (Get b = (False, False)) = (b \<noteq> ''true'' \<and> b \<noteq> ''false'')
   \<and> Get b \<noteq> (True, False)
   \<and> Get '''' = (False, False)
   \<and> Get ''unset'' = (False, False)
   \<and> Get (Set b True) = (True, True)
   \<and> Get (Set b False) = (False, True)
   \<and> Get (Clear b) = (False, False)"
  by (simp add: Get_def Set_def Clear_def FormatBool_def)

text \<open>
  C3. \<open>EqualBool b v\<close> holds if and only if \<open>Get b\<close> is \<open>(v, True)\<close>. In particular
  it is false, whatever \<open>v\<close> is, when \<open>Get\<close> reports no valid value, which is the case
  for every backing string other than "true" and "false".
\<close>

theorem EqualBool_iff_Get:
  "EqualBool b v = (Get b = (v, True))
   \<and> (\<not> snd (Get b) \<longrightarrow> \<not> EqualBool b v)
   \<and> (b \<noteq> ''true'' \<and> b \<noteq> ''false'' \<longrightarrow> \<not> EqualBool b v)"
  by (auto simp: EqualBool_def Get_def)

theorem EqualBool_iff_Get_witness:
  "\<not> snd (Get ''unset'') \<and> \<not> EqualBool ''unset'' False
   \<and> ''unset'' \<noteq> ''true'' \<and> ''unset'' \<noteq> ''false''
   \<and> EqualBool ''unset'' False = (Get ''unset'' = (False, True))"
  using EqualBool_iff_Get [of "''unset''" False]
  by (simp add: Get_def)


section \<open>The optional boolean: scanning\<close>

text \<open>
  C4. \<open>Scan\<close> succeeds exactly on the nil interface, on a \<^verbatim>\<open>bool\<close> and on an
  \<^verbatim>\<open>int64\<close> (the 64-bit integer type its type switch names): nil stores the empty
  string, \<open>True\<close> and \<open>False\<close> store "true" and "false", the integer zero stores "false"
  and every other \<^verbatim>\<open>int64\<close> stores "true". On a value of any other dynamic type it
  returns the error built from the format \<^verbatim>\<open>opt.Bool.Scan: invalid type %T: %v\<close> with
  the offending value as the operand of both verbs, its type and its value.
\<close>

theorem Scan_cases:
  "Scan b AnyNil = ('''', None)
   \<and> Scan b (AnyBool True) = (''true'', None)
   \<and> Scan b (AnyBool False) = (''false'', None)
   \<and> Scan b (AnyInt64 0) = (''false'', None)
   \<and> (n \<noteq> 0 \<longrightarrow> Scan b (AnyInt64 n) = (''true'', None))
   \<and> (snd (Scan b src) = None) = (is_AnyNil src \<or> is_AnyBool src \<or> is_AnyInt64 src)
   \<and> (\<not> is_AnyNil src \<and> \<not> is_AnyBool src \<and> \<not> is_AnyInt64 src \<longrightarrow>
        snd (Scan b src) = Some (Errorf ''opt.Bool.Scan: invalid type %T: %v'' [src, src]))"
  by (cases src) auto

theorem Scan_cases_witness:
  "(5 :: 64 word) \<noteq> 0 \<and> Scan ''false'' (AnyInt64 5) = (''true'', None)
   \<and> \<not> is_AnyNil (AnyString ''hello'') \<and> \<not> is_AnyBool (AnyString ''hello'')
   \<and> \<not> is_AnyInt64 (AnyString ''hello'')
   \<and> snd (Scan ''true'' (AnyString ''hello''))
       = Some (Errorf ''opt.Bool.Scan: invalid type %T: %v''
                [AnyString ''hello'', AnyString ''hello''])"
  using Scan_cases [of "''false''" 5 "AnyString ''hello''"]
    Scan_cases [of "''true''" 5 "AnyString ''hello''"]
  by simp


section \<open>The optional boolean: JSON\<close>

text \<open>
  C5. \<open>MarshalJSON\<close> returns the bytes \<^verbatim>\<open>true\<close> for "true", \<^verbatim>\<open>false\<close> for "false" and
  \<^verbatim>\<open>null\<close> for both the empty string and "unset"; for every other backing string it
  returns the error built from \<^verbatim>\<open>invalid opt.Bool value %q\<close> with that string as
  operand. So the bytes of a successful encoding are one of \<^verbatim>\<open>true\<close>, \<^verbatim>\<open>false\<close> and
  \<^verbatim>\<open>null\<close>.
\<close>

theorem MarshalJSON_cases:
  "MarshalJSON ''true'' = Inr ''true''
   \<and> MarshalJSON ''false'' = Inr ''false''
   \<and> MarshalJSON '''' = Inr ''null''
   \<and> MarshalJSON ''unset'' = Inr ''null''
   \<and> (b \<notin> {''true'', ''false'', '''', ''unset''} \<longrightarrow>
        MarshalJSON b = Inl (Errorf ''invalid opt.Bool value %q'' [AnyString b]))
   \<and> (MarshalJSON b = Inr j \<longrightarrow> j \<in> {''true'', ''false'', ''null''})"
  by (auto simp: MarshalJSON_def trueBytes_def falseBytes_def nullBytes_def)

theorem MarshalJSON_cases_witness:
  "''maybe'' \<notin> {''true'', ''false'', '''', ''unset''}
   \<and> MarshalJSON ''maybe'' = Inl (Errorf ''invalid opt.Bool value %q'' [AnyString ''maybe''])
   \<and> MarshalJSON ''unset'' = Inr ''null'' \<and> ''null'' \<in> {''true'', ''false'', ''null''}"
  using MarshalJSON_cases [of "''maybe''" "''null''"]
    MarshalJSON_cases [of "''unset''" "''null''"]
  by simp

text \<open>
  C6. \<open>UnmarshalJSON\<close> succeeds exactly on the byte sequences \<^verbatim>\<open>true\<close>, \<^verbatim>\<open>false\<close> and
  \<^verbatim>\<open>null\<close>, and stores "true", "false" and "unset" for them: \<^verbatim>\<open>null\<close> is stored as
  "unset", not as the empty string. On every other byte sequence it returns the error
  built from \<^verbatim>\<open>invalid opt.Bool value %q\<close> with the input bytes as operand.
\<close>

theorem UnmarshalJSON_cases:
  "UnmarshalJSON b ''true'' = (''true'', None)
   \<and> UnmarshalJSON b ''false'' = (''false'', None)
   \<and> UnmarshalJSON b ''null'' = (''unset'', None)
   \<and> (snd (UnmarshalJSON b j) = None) = (j \<in> {''true'', ''false'', ''null''})
   \<and> (j \<notin> {''true'', ''false'', ''null''} \<longrightarrow>
        snd (UnmarshalJSON b j) = Some (Errorf ''invalid opt.Bool value %q'' [AnyBytes j]))"
  by (auto simp: UnmarshalJSON_def)

theorem UnmarshalJSON_cases_witness:
  "''1'' \<notin> {''true'', ''false'', ''null''}
   \<and> snd (UnmarshalJSON ''true'' ''1'')
       = Some (Errorf ''invalid opt.Bool value %q'' [AnyBytes ''1''])"
  using UnmarshalJSON_cases [of "''true''" "''1''"]
  by simp

text \<open>
  C1. For each of the four valid backing strings "true", "false", "" and "unset",
  \<open>MarshalJSON\<close> succeeds, \<open>UnmarshalJSON\<close> succeeds on the bytes it returned, whatever
  value the receiver held before, and \<open>Get\<close> of the decoded value equals \<open>Get\<close> of the
  original. The backing string itself need not come back: the empty string is encoded
  as \<^verbatim>\<open>null\<close>, which is decoded as "unset".
\<close>

theorem MarshalJSON_UnmarshalJSON_roundtrip:
  "v \<in> {''true'', ''false'', '''', ''unset''} \<Longrightarrow>
     (case MarshalJSON v of
        Inl err \<Rightarrow> False
      | Inr j \<Rightarrow>
          snd (UnmarshalJSON b j) = None \<and> Get (fst (UnmarshalJSON b j)) = Get v)"
  by (auto simp: MarshalJSON_def UnmarshalJSON_def Get_def
        trueBytes_def falseBytes_def nullBytes_def)

theorem MarshalJSON_UnmarshalJSON_roundtrip_witness:
  "'''' \<in> {''true'', ''false'', '''', ''unset''}
   \<and> MarshalJSON '''' = Inr ''null''
   \<and> UnmarshalJSON ''true'' ''null'' = (''unset'', None)
   \<and> Get ''unset'' = Get ''''"
  using MarshalJSON_UnmarshalJSON_roundtrip [of "''''" "''true''"]
  by (simp add: MarshalJSON_def UnmarshalJSON_def Get_def nullBytes_def)

text \<open>
  C10. A failed decode leaves the receiver as it was: whenever \<open>Scan\<close> or
  \<open>UnmarshalJSON\<close> returns an error, the value held after the call is the value held
  before it.
\<close>

theorem decode_error_unchanged:
  "(snd (Scan b src) \<noteq> None \<longrightarrow> fst (Scan b src) = b)
   \<and> (snd (UnmarshalJSON b' j) \<noteq> None \<longrightarrow> fst (UnmarshalJSON b' j) = b')"
  by (cases src) (auto simp: UnmarshalJSON_def)

theorem decode_error_unchanged_witness:
  "snd (Scan ''true'' (AnyString ''hello'')) \<noteq> None
   \<and> fst (Scan ''true'' (AnyString ''hello'')) = ''true''
   \<and> snd (UnmarshalJSON ''false'' ''1'') \<noteq> None
   \<and> fst (UnmarshalJSON ''false'' ''1'') = ''false''"
  using decode_error_unchanged [of "''true''" "AnyString ''hello''" "''false''" "''1''"]
  by (simp add: UnmarshalJSON_def)


section \<open>The Windows probes: decimal rendering and the cache\<close>

text \<open>A decimal rendering is never empty and holds no dot.\<close>

lemma digit_not_dot: "d < 10 \<Longrightarrow> digit d \<noteq> CHR ''.''"
proof -
  assume "d < 10"
  then have "d \<in> {0, 1, 2, 3, 4, 5, 6, 7, 8, 9}" by auto
  then show ?thesis by (auto simp: digit_def)
qed

lemma fmt_d_not_Nil: "fmt_d n \<noteq> []"
  by (subst fmt_d.simps) simp

lemma dot_notin_fmt_d: "CHR ''.'' \<notin> set (fmt_d n)"
proof (induction n rule: fmt_d.induct)
  case (1 n)
  show ?case
  proof (cases "n < 10")
    case True
    then have "digit n \<noteq> CHR ''.''" by (rule digit_not_dot)
    with True show ?thesis by (subst fmt_d.simps) auto
  next
    case False
    with 1 have "CHR ''.'' \<notin> set (fmt_d (n div 10))" by simp
    moreover have "digit (n mod 10) \<noteq> CHR ''.''" by (simp add: digit_not_dot)
    ultimately show ?thesis using False by (subst fmt_d.simps) auto
  qed
qed

lemma count_dot_fmt_d: "count_list (fmt_d n) CHR ''.'' = 0"
  by (simp add: dot_notin_fmt_d)

lemma osVersionWindows_hit: "osVersionWindows sy (Some s) = (s, Some s)"
  by (simp add: osVersionWindows_def LoadOk_def)

lemma osVersionWindows_miss:
  "snd (osVersionWindows sy None) =
     (if fst (osVersionWindows sy None) = '''' then None
      else Some (fst (osVersionWindows sy None)))"
  by (simp add: osVersionWindows_def LoadOk_def Store_def Let_def split: prod.splits option.splits)

lemma osVersionWindows_nonempty: "fst (osVersionWindows sy None) \<noteq> ''''"
  by (simp add: osVersionWindows_def LoadOk_def Let_def fmt_d_not_Nil split: prod.splits option.splits)

lemma fold_hit: "fold (\<lambda>sy c. snd (osVersionWindows sy c)) ss (Some s) = Some s"
  by (induction ss) (simp_all add: osVersionWindows_hit)

lemma osVersionWindows_string:
  "RtlGetNtVersionNumbers sy = (major, minor, build) \<Longrightarrow>
     fst (osVersionWindows sy None) =
       fmt_d (unat major) @ ''.'' @ fmt_d (unat minor) @ ''.'' @ fmt_d (unat build)
         @ (if major = 10 \<and> snd (getUBR sy) = None
            then ''.'' @ fmt_d (unat (fst (getUBR sy))) else '''')"
  by (simp add: osVersionWindows_def LoadOk_def Let_def split: prod.splits option.splits)

lemma getUBR_ok:
  "(snd (getUBR sy) = None) =
     (case OpenKey sy LOCAL_MACHINE CurrentVersion (QUERY_VALUE OR WOW64_64KEY) of
        Inl err \<Rightarrow> False
      | Inr key \<Rightarrow>
          (case GetIntegerValue sy key ''UBR'' of
             (val, valType, err) \<Rightarrow> err = None \<and> valType = DWORD))"
  by (simp add: getUBR_def split: sum.splits prod.splits option.splits)

lemma getUBR_value:
  "OpenKey sy LOCAL_MACHINE CurrentVersion (QUERY_VALUE OR WOW64_64KEY) = Inr key \<Longrightarrow>
   GetIntegerValue sy key ''UBR'' = (val, DWORD, None) \<Longrightarrow>
     getUBR sy = (ucast val, None)"
  by (simp add: getUBR_def)

lemmas host_eval =
  host_def osVersionWindows_def getUBR_def LoadOk_def Store_def DWORD_def Let_def
  fmt_d.simps digit_def


section \<open>The Windows probes: the version string\<close>

text \<open>
  C7. With calls taken one after another: a call that finds a string in the cache
  returns it and leaves the cache as it is, whatever the system reports at that moment.
  A call that finds the cache empty stores the string it computed unless that string is
  empty, in which case the cache stays empty (with the decimal rendering of package fmt
  the computed string always holds digits, see \<open>osVersionWindows_nonempty\<close>, so the
  string is stored). Once a call on an empty cache has returned a non-empty string
  \<open>r\<close>, the cache holds \<open>r\<close>, any sequence \<open>ss\<close> of further calls under any system
  states keeps it, and the call after them, under a system state \<open>sy'\<close> of its own,
  returns \<open>r\<close> again.
\<close>

theorem osVersionWindows_cache:
  "osVersionWindows sy (Some s) = (s, Some s)
   \<and> snd (osVersionWindows sy None) =
       (if fst (osVersionWindows sy None) = '''' then None
        else Some (fst (osVersionWindows sy None)))
   \<and> (osVersionWindows sy None = (r, c) \<and> r \<noteq> '''' \<longrightarrow>
        c = Some r
        \<and> fold (\<lambda>sy c. snd (osVersionWindows sy c)) ss c = c
        \<and> osVersionWindows sy' (fold (\<lambda>sy c. snd (osVersionWindows sy c)) ss c) = (r, c))"
proof -
  have "c = Some r" if "osVersionWindows sy None = (r, c)" and "r \<noteq> ''''"
    using that osVersionWindows_miss [of sy] by simp
  then show ?thesis
    by (auto simp: osVersionWindows_hit osVersionWindows_miss fold_hit)
qed

theorem osVersionWindows_cache_witness:
  "osVersionWindows host None = (''10.0.19041.388'', Some ''10.0.19041.388'')
   \<and> ''10.0.19041.388'' \<noteq> ''''
   \<and> osVersionWindows (host\<lparr>RtlGetNtVersionNumbers := (6, 1, 7601)\<rparr>)
        (fold (\<lambda>sy c. snd (osVersionWindows sy c)) [host, host] (Some ''10.0.19041.388''))
       = (''10.0.19041.388'', Some ''10.0.19041.388'')
   \<and> osVersionWindows (host\<lparr>RtlGetNtVersionNumbers := (6, 1, 7601)\<rparr>) None
       = (''6.1.7601'', Some ''6.1.7601'')"
proof -
  have run: "osVersionWindows host None = (''10.0.19041.388'', Some ''10.0.19041.388'')"
    by (simp add: host_eval)
  have other: "osVersionWindows (host\<lparr>RtlGetNtVersionNumbers := (6, 1, 7601)\<rparr>) None
       = (''6.1.7601'', Some ''6.1.7601'')"
    by (simp add: host_eval)
  from osVersionWindows_cache
    [of host "''10.0.19041.388''" "''10.0.19041.388''" "Some ''10.0.19041.388''"
      "[host, host]" "host\<lparr>RtlGetNtVersionNumbers := (6, 1, 7601)\<rparr>"] run other
  show ?thesis by auto
qed

text \<open>
  C9. \<open>getUBR\<close> succeeds exactly when the key opens, the read of the value "UBR"
  returns no error and the type of the value is \<^verbatim>\<open>DWORD\<close>; it then returns the value
  read, cut to 32 bits. On an empty cache the version probe returns the major, minor and
  build numbers in decimal with a dot between them, followed by a dot and the update
  build revision if and only if the major number is 10 and \<open>getUBR\<close> succeeded: the
  string has three dots in that case and two in every other. The probes' results are
  strings (with the cache, for the version probe): their types hold no error.
\<close>

theorem osVersionWindows_UBR:
  "(snd (getUBR sy) = None) =
     (case OpenKey sy LOCAL_MACHINE CurrentVersion (QUERY_VALUE OR WOW64_64KEY) of
        Inl err \<Rightarrow> False
      | Inr key \<Rightarrow>
          (case GetIntegerValue sy key ''UBR'' of
             (val, valType, err) \<Rightarrow> err = None \<and> valType = DWORD))
   \<and> (OpenKey sy LOCAL_MACHINE CurrentVersion (QUERY_VALUE OR WOW64_64KEY) = Inr key
        \<and> GetIntegerValue sy key ''UBR'' = (val, DWORD, None) \<longrightarrow>
        getUBR sy = (ucast val, None))
   \<and> (RtlGetNtVersionNumbers sy = (major, minor, build) \<longrightarrow>
        fst (osVersionWindows sy None) =
          fmt_d (unat major) @ ''.'' @ fmt_d (unat minor) @ ''.'' @ fmt_d (unat build)
            @ (if major = 10 \<and> snd (getUBR sy) = None
               then ''.'' @ fmt_d (unat (fst (getUBR sy))) else '''')
        \<and> count_list (fst (osVersionWindows sy None)) CHR ''.'' =
            (if major = 10 \<and> snd (getUBR sy) = None then 3 else 2))"
proof -
  have dots: "count_list (fst (osVersionWindows sy None)) CHR ''.'' =
            (if major = 10 \<and> snd (getUBR sy) = None then 3 else 2)"
    if "RtlGetNtVersionNumbers sy = (major, minor, build)"
    by (simp add: osVersionWindows_string [OF that] count_dot_fmt_d)
  show ?thesis
    using getUBR_ok [of sy] getUBR_value [of sy key val] dots
    by (simp add: osVersionWindows_string)
qed

theorem osVersionWindows_UBR_witness:
  "getUBR host = (388, None)
   \<and> osVersionWindows host None = (''10.0.19041.388'', Some ''10.0.19041.388'')
   \<and> count_list ''10.0.19041.388'' CHR ''.'' = 3
   \<and> snd (getUBR (host\<lparr>OpenKey := (\<lambda>k path access. Inl (SysError 5))\<rparr>)) \<noteq> None
   \<and> fst (osVersionWindows (host\<lparr>OpenKey := (\<lambda>k path access. Inl (SysError 5))\<rparr>) None)
       = ''10.0.19041''
   \<and> fst (osVersionWindows (host\<lparr>RtlGetNtVersionNumbers := (6, 1, 7601)\<rparr>) None)
       = ''6.1.7601''"
proof -
  let ?denied = "host\<lparr>OpenKey := (\<lambda>k path access. Inl (SysError 5))\<rparr>"
  let ?seven = "host\<lparr>RtlGetNtVersionNumbers := (6, 1, 7601)\<rparr>"
  have ubr: "getUBR host = (388, None)"
    using osVersionWindows_UBR [of host 7 388 10 0 19041]
    by (simp add: host_def)
  have "fst (osVersionWindows host None) = ''10.0.19041.388''"
    using osVersionWindows_UBR [of host 7 388 10 0 19041] ubr
    by (simp add: host_def fmt_d.simps digit_def)
  moreover have "snd (osVersionWindows host None) = Some ''10.0.19041.388''"
    by (simp add: host_eval)
  ultimately have run: "osVersionWindows host None = (''10.0.19041.388'', Some ''10.0.19041.388'')"
    by (simp add: prod_eq_iff)
  have failed: "snd (getUBR ?denied) \<noteq> None"
    using osVersionWindows_UBR [of ?denied 7 388 10 0 19041]
    by simp
  then have "fst (osVersionWindows ?denied None) = ''10.0.19041''"
    using osVersionWindows_UBR [of ?denied 7 388 10 0 19041]
    by (simp add: host_def fmt_d.simps digit_def)
  moreover have "fst (osVersionWindows ?seven None) = ''6.1.7601''"
    using osVersionWindows_UBR [of ?seven 7 388 6 1 7601]
    by (simp add: host_def fmt_d.simps digit_def)
  ultimately show ?thesis using ubr run failed by simp
qed


section \<open>The Windows probes: the package type\<close>

text \<open>
  C8. If \<^verbatim>\<open>os.Stat\<close> succeeds on the Chocolatey path, the probe returns "choco",
  whatever the installer flag and the uninstaller are. Otherwise, if the registry
  integer "MSI" is 1, it returns "msi". Otherwise, if the path of the running binary is
  known and \<^verbatim>\<open>os.Stat\<close> succeeds on \<^verbatim>\<open>Uninstall-Tailscale.exe\<close> in its directory, it
  returns "nsis". Otherwise, and also when the path of the running binary cannot be
  determined, it returns the empty string.
\<close>

theorem packageTypeWindows_precedence:
  "(Stat sy chocolatey = None \<longrightarrow> packageTypeWindows sy = ''choco'')
   \<and> (Stat sy chocolatey \<noteq> None \<and> GetRegInteger sy ''MSI'' 0 = 1 \<longrightarrow>
        packageTypeWindows sy = ''msi'')
   \<and> (Stat sy chocolatey \<noteq> None \<and> GetRegInteger sy ''MSI'' 0 \<noteq> 1
        \<and> Executable sy = (exe, None)
        \<and> Stat sy (Join sy (Dir sy exe) ''Uninstall-Tailscale.exe'') = None \<longrightarrow>
        packageTypeWindows sy = ''nsis'')
   \<and> (Stat sy chocolatey \<noteq> None \<and> GetRegInteger sy ''MSI'' 0 \<noteq> 1
        \<and> Executable sy = (exe, None)
        \<and> Stat sy (Join sy (Dir sy exe) ''Uninstall-Tailscale.exe'') \<noteq> None \<longrightarrow>
        packageTypeWindows sy = '''')
   \<and> (Stat sy chocolatey \<noteq> None \<and> GetRegInteger sy ''MSI'' 0 \<noteq> 1
        \<and> snd (Executable sy) \<noteq> None \<longrightarrow>
        packageTypeWindows sy = '''')"
  by (auto simp: packageTypeWindows_def Let_def split: prod.splits option.splits)

theorem packageTypeWindows_precedence_witness:
  "packageTypeWindows
     (host\<lparr>Stat := (\<lambda>path. None), GetRegInteger := (\<lambda>name d. 1)\<rparr>) = ''choco''
   \<and> chocolatey \<noteq> ''D:'' @ backslash @ ''Uninstall-Tailscale.exe''
   \<and> packageTypeWindows
       (host\<lparr>Stat := (\<lambda>path. if path = chocolatey then Some (SysError 2) else None),
             GetRegInteger := (\<lambda>name d. if name = ''MSI'' then 1 else d)\<rparr>) = ''msi''
   \<and> packageTypeWindows
       (host\<lparr>Stat := (\<lambda>path. if path = chocolatey then Some (SysError 2) else None)\<rparr>)
       = ''nsis''
   \<and> packageTypeWindows host = ''''
   \<and> packageTypeWindows
       (host\<lparr>Stat := (\<lambda>path. if path = chocolatey then Some (SysError 2) else None),
             Executable := ('''', Some (SysError 5))\<rparr>) = ''''"
proof -
  let ?beside = "\<lambda>path. if path = chocolatey then Some (SysError 2) else None"
  let ?exe = "''D:'' @ backslash @ ''tailscaled.exe''"
  have distinct: "chocolatey \<noteq> ''D:'' @ backslash @ ''Uninstall-Tailscale.exe''"
    by (simp add: chocolatey_def backslash_def)
  have "packageTypeWindows
          (host\<lparr>Stat := (\<lambda>path. None), GetRegInteger := (\<lambda>name d. 1)\<rparr>) = ''choco''"
    using packageTypeWindows_precedence
      [of "host\<lparr>Stat := (\<lambda>path. None), GetRegInteger := (\<lambda>name d. 1)\<rparr>" ?exe]
    by simp
  moreover have "packageTypeWindows
          (host\<lparr>Stat := ?beside,
                GetRegInteger := (\<lambda>name d. if name = ''MSI'' then 1 else d)\<rparr>) = ''msi''"
    using packageTypeWindows_precedence
      [of "host\<lparr>Stat := ?beside,
                GetRegInteger := (\<lambda>name d. if name = ''MSI'' then 1 else d)\<rparr>" ?exe]
    by simp
  moreover have "packageTypeWindows (host\<lparr>Stat := ?beside\<rparr>) = ''nsis''"
    using packageTypeWindows_precedence [of "host\<lparr>Stat := ?beside\<rparr>" ?exe] distinct
    by (simp add: host_def chocolatey_def backslash_def)
  moreover have "packageTypeWindows host = ''''"
    using packageTypeWindows_precedence [of host ?exe]
    by (simp add: host_def chocolatey_def backslash_def)
  moreover have "packageTypeWindows
          (host\<lparr>Stat := ?beside, Executable := ('''', Some (SysError 5))\<rparr>) = ''''"
    using packageTypeWindows_precedence
      [of "host\<lparr>Stat := ?beside, Executable := ('''', Some (SysError 5))\<rparr>" ?exe]
    by (simp add: host_def chocolatey_def backslash_def)
  ultimately show ?thesis using distinct by simp
qed

end
